theory Spec2Isabelle
  imports Main
begin

section \<open>JavaScript values\<close>

text \<open>
  The values that \<^verbatim>\<open>JSON.parse\<close> produces and that travel in relay messages. Numbers are
  integers (nonces, counters and timestamps are; a number with a fraction is not
  represented); \<open>JNaN\<close> is the result of a failed numeric conversion. An object is its
  list of own properties, the first binding of a key being the one that is read; arrays
  are not represented, and what a value inherits is left to the environment (see
  \<open>inherited\<close> below).
\<close>

datatype jsval =
    JUndefined
  | JNull
  | JBool bool
  | JNum int
  | JNaN
  | JStr string
  | JObj "(string \<times> jsval) list"

text \<open>What a JavaScript computation throws.\<close>

datatype js_error =
    TypeError
  | SyntaxError string
  | InvalidCharacterError
  | ThrownString string

text \<open>Sequencing of computations that may throw: the first exception wins.\<close>

definition and_then :: "js_error + 'a \<Rightarrow> ('a \<Rightarrow> js_error + 'b) \<Rightarrow> js_error + 'b" where
  "and_then r f = (case r of Inl e \<Rightarrow> Inl e | Inr v \<Rightarrow> f v)"

text \<open>Truthiness, as \<^verbatim>\<open>if (v)\<close>, \<^verbatim>\<open>!v\<close>, \<^verbatim>\<open>v && w\<close> and \<^verbatim>\<open>v || w\<close> test it.\<close>

fun truthy :: "jsval \<Rightarrow> bool" where
  "truthy JUndefined = False"
| "truthy JNull = False"
| "truthy (JBool b) = b"
| "truthy (JNum n) = (n \<noteq> 0)"
| "truthy JNaN = False"
| "truthy (JStr s) = (s \<noteq> [])"
| "truthy (JObj kvs) = True"

text \<open>
  Strict equality \<^verbatim>\<open>===\<close>. \<open>NaN\<close> equals nothing. Two objects are equal only when they are
  the same reference; every object compared here comes out of a \<^verbatim>\<open>JSON.parse\<close> call or a
  message of its own, so two objects are never equal.
\<close>

fun strict_eq :: "jsval \<Rightarrow> jsval \<Rightarrow> bool" where
  "strict_eq JUndefined JUndefined = True"
| "strict_eq JNull JNull = True"
| "strict_eq (JBool a) (JBool b) = (a = b)"
| "strict_eq (JNum a) (JNum b) = (a = b)"
| "strict_eq (JStr a) (JStr b) = (a = b)"
| "strict_eq v w = False"

text \<open>
  Reading a property under one of the fixed names the program uses (\<open>nonce\<close>, \<open>sub\<close>,
  \<open>valid\<close>, \<open>uid\<close>), \<^verbatim>\<open>v.k\<close>: a \<open>TypeError\<close> on \<open>null\<close> and \<open>undefined\<close>, the own
  property of an object, \<open>undefined\<close> otherwise (no prototype has a property of these
  names).
\<close>

definition own_prop :: "(string \<times> jsval) list \<Rightarrow> string \<Rightarrow> jsval" where
  "own_prop kvs k = (case map_of kvs k of None \<Rightarrow> JUndefined | Some v \<Rightarrow> v)"

fun get_prop :: "jsval \<Rightarrow> string \<Rightarrow> js_error + jsval" where
  "get_prop JUndefined k = Inl TypeError"
| "get_prop JNull k = Inl TypeError"
| "get_prop (JObj kvs) k = Inr (own_prop kvs k)"
| "get_prop v k = Inr JUndefined"

text \<open>
  An optional string of the program (a string, or \<open>undefined\<close> / \<open>null\<close>): its truthiness,
  its value as a \<open>jsval\<close>, what string concatenation makes of it, and \<^verbatim>\<open>v || d\<close>.
\<close>

definition truthy_str :: "string option \<Rightarrow> bool" where
  "truthy_str v = (case v of None \<Rightarrow> False | Some s \<Rightarrow> s \<noteq> [])"

definition opt_val :: "string option \<Rightarrow> jsval" where
  "opt_val v = (case v of None \<Rightarrow> JUndefined | Some s \<Rightarrow> JStr s)"

definition js_str :: "string option \<Rightarrow> string" where
  "js_str v = (case v of None \<Rightarrow> ''undefined'' | Some s \<Rightarrow> s)"

definition or_default :: "string option \<Rightarrow> string \<Rightarrow> string" where
  "or_default v d = (case v of None \<Rightarrow> d | Some s \<Rightarrow> if s \<noteq> [] then s else d)"

text \<open>
  The browser functions the program calls and does not define: \<^verbatim>\<open>JSON.parse\<close> on a string
  (\<open>Inl m\<close>: a \<open>SyntaxError\<close> with message \<open>m\<close>), \<^verbatim>\<open>atob\<close> (\<open>None\<close>: it throws), and the
  numeric value of a string (\<open>None\<close>: \<open>NaN\<close>). And what the environment adds to the
  values: \<open>inherited v k\<close> is what reading the property \<open>k\<close> of \<open>v\<close> gives when \<open>v\<close> is
  not an object with an own property \<open>k\<close>: what the prototype chain of \<open>v\<close> holds under
  that name (the function \<open>Object\<close> for \<open>constructor\<close>, say), for a string also its
  length and its characters, and \<open>JUndefined\<close> when there is nothing. An inherited
  function is an object here.
\<close>

record builtins =
  json_parse :: "string \<Rightarrow> string + jsval"
  atob :: "string \<Rightarrow> string option"
  string_to_number :: "string \<Rightarrow> int option"
  inherited :: "jsval \<Rightarrow> string \<Rightarrow> jsval"

text \<open>
  Reading a property under a name that a response chooses, \<^verbatim>\<open>v[k]\<close>: a \<open>TypeError\<close> on
  \<open>null\<close> and \<open>undefined\<close>, the own property when there is one, what is inherited
  otherwise.
\<close>

fun get_keyed :: "builtins \<Rightarrow> jsval \<Rightarrow> string \<Rightarrow> js_error + jsval" where
  "get_keyed b JUndefined k = Inl TypeError"
| "get_keyed b JNull k = Inl TypeError"
| "get_keyed b (JObj kvs) k =
     Inr (case map_of kvs k of None \<Rightarrow> inherited b (JObj kvs) k | Some v \<Rightarrow> v)"
| "get_keyed b v k = Inr (inherited b v k)"

definition JSON_parse :: "builtins \<Rightarrow> string \<Rightarrow> js_error + jsval" where
  "JSON_parse b s = (case json_parse b s of Inl m \<Rightarrow> Inl (SyntaxError m) | Inr v \<Rightarrow> Inr v)"

text \<open>
  \<^verbatim>\<open>JSON.parse(sessionStorage.getItem(k))\<close>: \<open>getItem\<close> gives \<open>null\<close> for a missing key,
  which \<^verbatim>\<open>JSON.parse\<close> reads as the text \<open>null\<close>.
\<close>

definition JSON_parse_item :: "builtins \<Rightarrow> string option \<Rightarrow> js_error + jsval" where
  "JSON_parse_item b item = (case item of None \<Rightarrow> Inr JNull | Some s \<Rightarrow> JSON_parse b s)"

text \<open>
  The conversion to a number, of \<^verbatim>\<open>Number(v)\<close> and of \<^verbatim>\<open>v * 1000\<close>. An object is first
  converted to a primitive value by its methods \<open>valueOf\<close> and \<open>toString\<close>: the inherited
  ones give the string \<open>[object Object]\<close>, which is \<open>NaN\<close>; an own property \<open>toString\<close>
  of an object made of data is not a function, and then the conversion throws a
  \<open>TypeError\<close>.
\<close>

fun js_Number :: "builtins \<Rightarrow> jsval \<Rightarrow> js_error + jsval" where
  "js_Number b JUndefined = Inr JNaN"
| "js_Number b JNull = Inr (JNum 0)"
| "js_Number b (JBool v) = Inr (JNum (if v then 1 else 0))"
| "js_Number b (JNum n) = Inr (JNum n)"
| "js_Number b JNaN = Inr JNaN"
| "js_Number b (JStr s) =
     Inr (case string_to_number b s of None \<Rightarrow> JNaN | Some n \<Rightarrow> JNum n)"
| "js_Number b (JObj kvs) =
     (if map_of kvs ''toString'' = None then Inr JNaN else Inl TypeError)"

text \<open>
  \<^verbatim>\<open>s.replace(c, r)\<close> for a one-character pattern \<open>c\<close>: only the first occurrence is
  replaced. \<^verbatim>\<open>s.split(c)\<close>: the pieces between the separators, \<open>[""]\<close> for the empty
  string.
\<close>

fun replace_first :: "char \<Rightarrow> string \<Rightarrow> string \<Rightarrow> string" where
  "replace_first c r [] = []"
| "replace_first c r (x # xs) = (if x = c then r @ xs else x # replace_first c r xs)"

fun split :: "char \<Rightarrow> string \<Rightarrow> string list" where
  "split c [] = [[]]"
| "split c (x # xs) =
     (if x = c then [] # split c xs
      else (case split c xs of [] \<Rightarrow> [[x]] | p # ps \<Rightarrow> (x # p) # ps))"

section \<open>The response verifier (sessionCheckFrame)\<close>

text \<open>
  The data of a relay message, \<^verbatim>\<open>e.data\<close>; a property the sender left out is
  \<open>JUndefined\<close>.
\<close>

record msg_data =
  data_message :: jsval
  data_reason :: jsval
  data_claims :: jsval
  data_authId :: jsval

text \<open>The window the verifier runs in (the hidden frame, loaded from the redirect URI).\<close>

record frame_window =
  parent_origin :: string
  window_origin :: string
  location_origin :: string
  location_hash :: string
  location_search :: string
  sessionStorage :: "string \<rightharpoonup> string"

text \<open>The reducer of \<open>response_params\<close>: an entry with an empty key or value is dropped.\<close>

definition add_entry :: "(string \<rightharpoonup> string) \<Rightarrow> string \<Rightarrow> (string \<rightharpoonup> string)" where
  "add_entry result entry =
     (case split CHR ''='' entry of
        k # v # rest \<Rightarrow> if k \<noteq> [] \<and> v \<noteq> [] then result(k \<mapsto> v) else result
      | _ \<Rightarrow> result)"

definition response_params :: "string \<Rightarrow> string \<Rightarrow> (string \<rightharpoonup> string)" where
  "response_params hash search =
     foldl add_entry Map.empty
       (split CHR ''&'' (replace_first CHR ''#'' [] hash @ ''&'' @ replace_first CHR ''?'' [] search))"

text \<open>\<^verbatim>\<open>if (response_params.k)\<close>: the parameter is there and not empty.\<close>

definition param_set :: "(string \<rightharpoonup> string) \<Rightarrow> string \<Rightarrow> bool" where
  "param_set params k = truthy_str (params k)"

definition getIdTokenClaims :: "builtins \<Rightarrow> string \<Rightarrow> js_error + jsval" where
  "getIdTokenClaims b id_token =
     (case split CHR ''.'' id_token of
        header # payload # rest \<Rightarrow>
          (case atob b (replace_first CHR ''_'' ''/'' (replace_first CHR ''-'' ''+'' payload)) of
             None \<Rightarrow> Inl InvalidCharacterError
           | Some text \<Rightarrow> JSON_parse b text)
      | _ \<Rightarrow> Inl TypeError)"

text \<open>
  The three messages the verifier posts. The one for an error response has no \<open>authId\<close>.
\<close>

definition sessionCheckFailed :: "string \<Rightarrow> jsval \<Rightarrow> msg_data" where
  "sessionCheckFailed r a =
     \<lparr>data_message = JStr ''sessionCheckFailed'', data_reason = JStr r,
      data_claims = JUndefined, data_authId = a\<rparr>"

definition sessionCheckSucceeded :: "jsval \<Rightarrow> jsval \<Rightarrow> msg_data" where
  "sessionCheckSucceeded c a =
     \<lparr>data_message = JStr ''sessionCheckSucceeded'', data_reason = JUndefined,
      data_claims = c, data_authId = a\<rparr>"

text \<open>
  \<^verbatim>\<open>parent.postMessage(d, document.location.origin)\<close>: the data and the target origin.
\<close>

definition postMessage :: "frame_window \<Rightarrow> msg_data \<Rightarrow> js_error + (msg_data \<times> string) option" where
  "postMessage w d = Inr (Some (d, location_origin w))"

text \<open>
  The body of the verifier after the parameters are read. The result is the exception
  thrown, \<open>None\<close> when it returns without a message, or the message posted to the parent.
\<close>

definition classify ::
  "builtins \<Rightarrow> frame_window \<Rightarrow> (string \<rightharpoonup> string) \<Rightarrow> js_error + (msg_data \<times> string) option" where
  "classify b w params =
     (let state = params ''state'' in
      if param_set params ''id_token'' then
        and_then (getIdTokenClaims b (js_str (params ''id_token''))) (\<lambda>new_claims.
        and_then (JSON_parse_item b (sessionStorage w ''sessionCheckNonce'')) (\<lambda>nonceMap.
        and_then (get_keyed b nonceMap (js_str state)) (\<lambda>ledger_nonce.
        and_then (get_prop new_claims ''nonce'') (\<lambda>nonce.
        and_then (js_Number b nonce) (\<lambda>number.
        if \<not> strict_eq ledger_nonce number then
          postMessage w (sessionCheckFailed ''nonce_mismatch'' (opt_val state))
        else
          and_then (JSON_parse_item b (sessionStorage w ''sessionCheckSubject'')) (\<lambda>subjectMap.
          and_then (get_keyed b subjectMap (js_str state)) (\<lambda>ledger_subject.
          if truthy ledger_subject then
            and_then (get_prop new_claims ''sub'') (\<lambda>sub.
            if \<not> strict_eq sub ledger_subject then
              postMessage w (sessionCheckFailed ''subject_mismatch'' (opt_val state))
            else
              postMessage w (sessionCheckSucceeded new_claims (opt_val state)))
          else
            postMessage w (sessionCheckSucceeded new_claims (opt_val state)))))))))
      else if param_set params ''error'' then
        postMessage w
          \<lparr>data_message = JStr ''sessionCheckFailed'', data_reason = opt_val (params ''error''),
           data_claims = JUndefined, data_authId = JUndefined\<rparr>
      else
        postMessage w (sessionCheckSucceeded JUndefined (opt_val state)))"

definition sessionCheckFrame :: "builtins \<Rightarrow> frame_window \<Rightarrow> js_error + (msg_data \<times> string) option" where
  "sessionCheckFrame b w =
     (if parent_origin w \<noteq> window_origin w then Inr None
      else classify b w (response_params (location_hash w) (location_search w)))"

section \<open>The session check instance (sessionCheck.js)\<close>

text \<open>
  The configuration the caller passes to the constructor. An option the caller leaves out
  is \<open>None\<close>; a handler is recorded by whether it was supplied. \<open>cooldownPeriod\<close> is
  whatever value the caller gives (\<open>JUndefined\<close> when left out): the constructor does not
  look at its type.
\<close>

record config =
  cfg_subject :: "string option"
  cfg_invalidSessionHandler :: bool
  cfg_initialSessionSuccessHandler :: bool
  cfg_sessionClaimsHandler :: bool
  cfg_cooldownPeriod :: jsval
  cfg_amUrl :: "string option"
  cfg_ssoToken :: "string option"
  cfg_ssoTokenName :: "string option"
  cfg_opUrl :: "string option"
  cfg_responseType :: "string option"
  cfg_clientId :: "string option"
  cfg_authId :: "string option"
  cfg_idToken :: "string option"
  cfg_redirectUri :: "string option"
  cfg_scope :: "string option"

text \<open>
  A call of one of the caller's handlers, with its arguments: all the program shows of
  itself. The handlers are taken to return normally.
\<close>

datatype handler_call =
    InvalidSession jsval int
  | SessionClaims jsval int
  | InitialSessionSuccess

text \<open>
  The instance, \<^verbatim>\<open>this\<close>. A field the constructor does not set, or that \<open>destroy\<close>
  sets to \<open>null\<close>, is \<open>None\<close>. The iframe and the listener are handles into the page.
\<close>

record session_check =
  config :: config
  request_check_count :: int
  cooldownPeriod :: jsval
  subject :: "string option"
  checkSessionTimestamp :: "int option"
  ssoTokenName :: "string option"
  ssoToken :: "string option"
  amUrl :: "string option"
  redirectUri :: "string option"
  idToken :: "string option"
  clientId :: "string option"
  authId :: "string option"
  opUrl :: "string option"
  responseType :: "string option"
  scope :: "string option"
  iframe :: "nat option"
  eventListenerHandle :: "nat option"

text \<open>
  The page the instance lives in: its origin, whether the document has a body, the
  absolute URL that the relative \<open>sessionCheck.html\<close> resolves to, the iframes under the
  body, the listeners registered for \<open>message\<close> events on the window, the session storage,
  and the next unused handle.
\<close>

record page =
  document_origin :: string
  has_body :: bool
  sessionCheck_html :: string
  body_children :: "nat list"
  message_listeners :: "nat list"
  storage :: "string \<rightharpoonup> string"
  next_handle :: nat

text \<open>What a dispatch asks of the browser.\<close>

datatype request =
    Navigate nat string
  | XhrPost string string string

text \<open>\<^verbatim>\<open>config.cooldownPeriod || 5\<close>\<close>

definition cooldown_or_default :: "jsval \<Rightarrow> jsval" where
  "cooldown_or_default v = (if truthy v then v else JNum 5)"

definition none_idToken_message :: string where
  "none_idToken_message =
     ''When using the 'none' response type, you must supply an idToken value to use as a hint when calling the OP.''"

text \<open>
  The constructor. It throws the string above, or a \<open>TypeError\<close> when the document has no
  body to append the iframe to.
\<close>

definition construct :: "page \<Rightarrow> config \<Rightarrow> js_error + (page \<times> session_check)" where
  "construct p c =
     (let this0 =
        \<lparr>config = c, request_check_count = 0,
         cooldownPeriod = cooldown_or_default (cfg_cooldownPeriod c),
         subject = cfg_subject c, checkSessionTimestamp = None,
         ssoTokenName = None, ssoToken = None, amUrl = None,
         redirectUri = None, idToken = None, clientId = None, authId = None,
         opUrl = None, responseType = None, scope = None,
         iframe = None, eventListenerHandle = None\<rparr>
      in
      if truthy_str (cfg_ssoToken c) then
        Inr (p, this0\<lparr>ssoTokenName := Some (or_default (cfg_ssoTokenName c) ''iPlanetDirectoryPro''),
                      ssoToken := cfg_ssoToken c,
                      amUrl := Some (js_str (cfg_amUrl c) @ ''/sessions?_action=validate'')\<rparr>)
      else
        let this1 =
          this0\<lparr>redirectUri :=
                   (if \<not> truthy_str (cfg_redirectUri c) then Some (sessionCheck_html p)
                    else cfg_redirectUri c),
                 idToken := cfg_idToken c,
                 clientId := cfg_clientId c,
                 authId := Some (or_default (cfg_authId c) ''Primary''),
                 opUrl := cfg_opUrl c,
                 responseType := Some (or_default (cfg_responseType c) ''id_token'')\<rparr>
        in
        if responseType this1 = Some ''none'' \<and> \<not> truthy_str (idToken this1) then
          Inl (ThrownString none_idToken_message)
        else
          let this2 =
            (if responseType this1 = Some ''id_token''
             then this1\<lparr>scope := Some (or_default (cfg_scope c) ''openid'')\<rparr>
             else this1)
          in
          if \<not> has_body p then Inl TypeError
          else
            let h = next_handle p;
                this3 = this2\<lparr>iframe := Some h, eventListenerHandle := Some h\<rparr>;
                p1 = p\<lparr>body_children := body_children p @ [h],
                       message_listeners := message_listeners p @ [h],
                       next_handle := Suc h\<rparr>;
                p2 = (if truthy_str (subject this3)
                      then p1\<lparr>storage := (storage p1)
                             (''sessionCheckSubject-'' @ js_str (authId this3) \<mapsto> js_str (subject this3))\<rparr>
                      else p1)
            in Inr (p2, this3))"

text \<open>The decimal digits of a number, as string concatenation writes it.\<close>

fun show_nat :: "nat \<Rightarrow> string" where
  "show_nat n =
     (if n < 10 then [''0123456789'' ! n]
      else show_nat (n div 10) @ [''0123456789'' ! (n mod 10)])"

declare show_nat.simps [simp del]

definition authorizationUrl :: "nat \<Rightarrow> session_check \<Rightarrow> string" where
  "authorizationUrl nonce this =
     (let u0 = js_str (opUrl this) @ ''?prompt=none'' @
               ''&client_id='' @ js_str (clientId this) @
               ''&response_type='' @ js_str (responseType this) @
               ''&redirect_uri='' @ js_str (redirectUri this) @
               ''&state='' @ js_str (authId this);
          u1 = (if responseType this = Some ''id_token''
                then u0 @ ''&nonce='' @ show_nat nonce else u0);
          u2 = (if truthy_str (scope this) then u1 @ ''&scope='' @ js_str (scope this) else u1)
      in if truthy_str (idToken this) then u2 @ ''&id_token_hint='' @ js_str (idToken this)
         else u2)"

text \<open>
  \<open>sessionCheckRequest\<close>, with the value \<open>nonce\<close> that
  \<^verbatim>\<open>Math.floor(Math.random() * 100000)\<close> draws. It returns the page (the storage is
  written) and the requests made: none when the iframe is gone.
\<close>

definition sessionCheckRequest :: "nat \<Rightarrow> page \<Rightarrow> session_check \<Rightarrow> page \<times> request list" where
  "sessionCheckRequest nonce p this =
     (if truthy_str (ssoToken this) then
        (p, [XhrPost (js_str (amUrl this)) (js_str (ssoTokenName this)) (js_str (ssoToken this))])
      else
        (case iframe this of
           None \<Rightarrow> (p, [])
         | Some h \<Rightarrow>
             ((if responseType this = Some ''id_token''
               then p\<lparr>storage := (storage p)
                      (''sessionCheckNonce-'' @ js_str (authId this) \<mapsto> show_nat nonce)\<rparr>
               else p),
              [Navigate h (authorizationUrl nonce this)])))"

text \<open>
  The cooldown test of \<open>triggerSessionCheck\<close>, at the time \<open>timestamp\<close> that
  \<^verbatim>\<open>(new Date()).getTime()\<close> reads: \<^verbatim>\<open>!this.checkSessionTimestamp\<close> holds for an unset
  timestamp and for the timestamp 0, and then the rest is not evaluated. The product
  \<^verbatim>\<open>this.cooldownPeriod * 1000\<close> converts the period to a number first, which can throw;
  when the number is \<open>NaN\<close> so is the sum, and the comparison is false.
\<close>

definition cooldown_over :: "builtins \<Rightarrow> session_check \<Rightarrow> int \<Rightarrow> js_error + bool" where
  "cooldown_over b this timestamp =
     (case checkSessionTimestamp this of
        None \<Rightarrow> Inr True
      | Some t \<Rightarrow>
          if t = 0 then Inr True
          else
            and_then (js_Number b (cooldownPeriod this)) (\<lambda>number.
            case number of
              JNum seconds \<Rightarrow> Inr (t + seconds * 1000 < timestamp)
            | _ \<Rightarrow> Inr False))"

text \<open>
  \<open>triggerSessionCheck\<close>. An exception can only leave it from the cooldown test, before
  anything is changed.
\<close>

definition triggerSessionCheck ::
  "builtins \<Rightarrow> int \<Rightarrow> nat \<Rightarrow> page \<Rightarrow> session_check \<Rightarrow>
     js_error + (page \<times> session_check \<times> request list)" where
  "triggerSessionCheck b timestamp nonce p this =
     and_then (cooldown_over b this timestamp) (\<lambda>over.
     if over then
       let this' = this\<lparr>checkSessionTimestamp := Some timestamp,
                         request_check_count := request_check_count this + 1\<rparr>;
           (p', reqs) = sessionCheckRequest nonce p this'
       in Inr (p', this', reqs)
     else Inr (p, this, []))"

text \<open>
  A call of \<^verbatim>\<open>config.invalidSessionHandler\<close> that no test of the handler guards: a
  \<open>TypeError\<close> when the caller supplied none.
\<close>

definition call_invalidSessionHandler :: "config \<Rightarrow> jsval \<Rightarrow> int \<Rightarrow> js_error + handler_call list" where
  "call_invalidSessionHandler c r n =
     (if cfg_invalidSessionHandler c then Inr [InvalidSession r n] else Inl TypeError)"

text \<open>
  \<open>validationHandler\<close>, which the load listener of the validation request calls with the
  response text. The result is the exception that leaves it, or the handlers it called.
\<close>

definition validationHandler :: "builtins \<Rightarrow> session_check \<Rightarrow> string \<Rightarrow> js_error + handler_call list" where
  "validationHandler b this responseText =
     (case json_parse b responseText of
        Inl m \<Rightarrow> call_invalidSessionHandler (config this) (JStr m) (request_check_count this)
      | Inr validationResponse \<Rightarrow>
          and_then (get_prop validationResponse ''valid'') (\<lambda>valid.
          if \<not> truthy valid then
            call_invalidSessionHandler (config this) (JStr ''invalid_session'') (request_check_count this)
          else
            and_then (get_prop validationResponse ''uid'') (\<lambda>uid.
            if truthy_str (subject this) \<and> \<not> strict_eq (opt_val (subject this)) uid then
              call_invalidSessionHandler (config this) (JStr ''subject_mismatch'') (request_check_count this)
            else if cfg_initialSessionSuccessHandler (config this) \<and> request_check_count this = 1
              then Inr [InitialSessionSuccess]
            else Inr [])))"

text \<open>A \<open>message\<close> event on the window of the page.\<close>

record message_event =
  origin :: string
  data :: msg_data

text \<open>The function \<open>eventListenerHandle\<close> of an instance: the handlers it calls.\<close>

definition eventListener :: "page \<Rightarrow> session_check \<Rightarrow> message_event \<Rightarrow> handler_call list" where
  "eventListener p this e =
     (if truthy (data_authId (data e)) \<and> \<not> strict_eq (data_authId (data e)) (opt_val (authId this))
      then []
      else if origin e \<noteq> document_origin p then []
      else
        (if strict_eq (data_message (data e)) (JStr ''sessionCheckFailed'') \<and>
            cfg_invalidSessionHandler (config this)
         then [InvalidSession (data_reason (data e)) (request_check_count this)] else []) @
        (if strict_eq (data_message (data e)) (JStr ''sessionCheckSucceeded'') then
           (if cfg_sessionClaimsHandler (config this) \<and> truthy (data_claims (data e))
            then [SessionClaims (data_claims (data e)) (request_check_count this)] else []) @
           (if cfg_initialSessionSuccessHandler (config this) \<and> request_check_count this = 1
            then [InitialSessionSuccess] else [])
         else []))"

text \<open>
  What a \<open>message\<close> event does to an instance whose constructor registered the listener
  \<open>h\<close>: the window calls the listeners registered on it, whatever the fields of the
  instance hold, and the listener \<open>h\<close> is \<open>eventListenerHandle\<close> bound to the instance.
\<close>

definition window_message ::
  "page \<Rightarrow> nat \<Rightarrow> session_check \<Rightarrow> message_event \<Rightarrow> handler_call list" where
  "window_message p h this e =
     (if h \<in> set (message_listeners p) then eventListener p this e else [])"

text \<open>
  The message the verifier posted, as the page receives it: \<open>postMessage\<close> delivers to a
  window of the target origin only, and the event carries the origin of the sender.
\<close>

definition relay :: "frame_window \<Rightarrow> page \<Rightarrow> msg_data \<times> string \<Rightarrow> message_event option" where
  "relay fw p m =
     (if snd m = document_origin p then Some \<lparr>origin = window_origin fw, data = fst m\<rparr>
      else None)"

text \<open>
  \<open>destroy\<close>. The iframe is removed only when it is there and has a parent, removing a
  storage item that is missing is allowed, and so is removing a listener that is \<open>null\<close>:
  no step throws, and the result is always \<open>Inr\<close>.
\<close>

definition destroy :: "page \<Rightarrow> session_check \<Rightarrow> js_error + (page \<times> session_check)" where
  "destroy p this =
     (let p1 = (case iframe this of
                  None \<Rightarrow> p
                | Some h \<Rightarrow> if h \<in> set (body_children p)
                            then p\<lparr>body_children := removeAll h (body_children p)\<rparr> else p);
          p2 = p1\<lparr>storage := (storage p1)(''sessionCheckSubject-'' @ js_str (authId this) := None)\<rparr>;
          p3 = p2\<lparr>storage := (storage p2)(''sessionCheckNonce-'' @ js_str (authId this) := None)\<rparr>;
          p4 = (case eventListenerHandle this of
                  None \<Rightarrow> p3
                | Some h \<Rightarrow> p3\<lparr>message_listeners := removeAll h (message_listeners p3)\<rparr>)
      in Inr (p4, this\<lparr>iframe := None, eventListenerHandle := None\<rparr>))"

section \<open>An instance over time\<close>

text \<open>
  The page, one instance on it, the listener its constructor registered on the window
  (\<open>None\<close> in the trusted-token mode, which registers none), the requests it has made so
  far, and the number of validation requests sent and not yet answered. What can happen: the application calls
  \<open>triggerSessionCheck\<close> or \<open>destroy\<close>, a \<open>message\<close> event reaches the window, a
  validation request completes with a response text (only a request that was sent can
  complete). An exception that leaves a listener is reported by the browser and changes
  nothing; one that leaves \<open>triggerSessionCheck\<close> reaches the application, and nothing
  has changed either.
\<close>

record world =
  the_page :: page
  the_instance :: session_check
  the_listener :: "nat option"
  requests :: "request list"
  pending_requests :: nat

datatype event =
    Trigger int nat
  | Message message_event
  | Load string
  | Destroy

fun is_xhr :: "request \<Rightarrow> bool" where
  "is_xhr (XhrPost u h v) = True"
| "is_xhr (Navigate h u) = False"

definition step :: "builtins \<Rightarrow> world \<Rightarrow> event \<Rightarrow> world \<times> handler_call list" where
  "step b w ev =
     (case ev of
        Trigger timestamp nonce \<Rightarrow>
          (case triggerSessionCheck b timestamp nonce (the_page w) (the_instance w) of
             Inl err \<Rightarrow> (w, [])
           | Inr (p, this, reqs) \<Rightarrow>
               (\<lparr>the_page = p, the_instance = this, the_listener = the_listener w,
                 requests = requests w @ reqs,
                 pending_requests = pending_requests w + length (filter is_xhr reqs)\<rparr>, []))
      | Message e \<Rightarrow>
          (w, (case the_listener w of
                 None \<Rightarrow> []
               | Some h \<Rightarrow> window_message (the_page w) h (the_instance w) e))
      | Load responseText \<Rightarrow>
          (if pending_requests w = 0 then (w, [])
           else (w\<lparr>pending_requests := pending_requests w - 1\<rparr>,
                 (case validationHandler b (the_instance w) responseText of
                    Inl err \<Rightarrow> []
                  | Inr calls \<Rightarrow> calls)))
      | Destroy \<Rightarrow>
          (case destroy (the_page w) (the_instance w) of
             Inl err \<Rightarrow> (w, [])
           | Inr (p, this) \<Rightarrow> (w\<lparr>the_page := p, the_instance := this\<rparr>, [])))"

fun run :: "builtins \<Rightarrow> world \<Rightarrow> event list \<Rightarrow> world \<times> handler_call list" where
  "run b w [] = (w, [])"
| "run b w (ev # evs) =
     (case step b w ev of
        (w1, calls1) \<Rightarrow> (case run b w1 evs of (w2, calls2) \<Rightarrow> (w2, calls1 @ calls2)))"

text \<open>The world right after a successful construction.\<close>

definition new_world :: "page \<Rightarrow> config \<Rightarrow> js_error + world" where
  "new_world p c =
     (case construct p c of
        Inl err \<Rightarrow> Inl err
      | Inr (p', this) \<Rightarrow>
          Inr \<lparr>the_page = p', the_instance = this, the_listener = eventListenerHandle this,
               requests = [], pending_requests = 0\<rparr>)"

text \<open>
  Two properties of a world that the steps preserve. In the standards-based mode the
  instance holds no session token, no validation request is under way, and the listener
  of the instance, as long as it is registered, is the one the field
  \<open>eventListenerHandle\<close> holds. A world is torn down when, instead of the last, the
  listener of the instance is not registered on the window.
\<close>

definition standards_mode :: "world \<Rightarrow> bool" where
  "standards_mode w =
     (\<not> truthy_str (ssoToken (the_instance w)) \<and> pending_requests w = 0 \<and>
      (case the_listener w of
         None \<Rightarrow> True
       | Some h \<Rightarrow> h \<in> set (message_listeners (the_page w)) \<longrightarrow>
                    eventListenerHandle (the_instance w) = Some h))"

definition torn_down :: "world \<Rightarrow> bool" where
  "torn_down w =
     (\<not> truthy_str (ssoToken (the_instance w)) \<and> pending_requests w = 0 \<and>
      (case the_listener w of
         None \<Rightarrow> True
       | Some h \<Rightarrow> h \<notin> set (message_listeners (the_page w))))"

section \<open>Concrete scenarios\<close>

text \<open>
  The names every object inherits from \<open>Object.prototype\<close>.
\<close>

definition object_prototype_names :: "string list" where
  "object_prototype_names =
     [''constructor'', ''toString'', ''toLocaleString'', ''valueOf'', ''hasOwnProperty'',
      ''isPrototypeOf'', ''propertyIsEnumerable'', ''__proto__'', ''__defineGetter__'',
      ''__defineSetter__'', ''__lookupGetter__'', ''__lookupSetter__'']"

text \<open>
  A browser for the examples: \<^verbatim>\<open>JSON.parse\<close> and \<^verbatim>\<open>atob\<close> on the texts the examples use
  (every other text is refused), the numeric value of the strings \<open>0\<close> and \<open>42\<close>, and
  what every value inherits from \<open>Object.prototype\<close> (the further properties of strings,
  numbers and booleans are not listed).
\<close>

definition demo_builtins :: builtins where
  \<open>demo_builtins =
     \<lparr>json_parse = (\<lambda>s.
        case map_of
          [(''{"sub":"bob","nonce":42}'', JObj [(''sub'', JStr ''bob''), (''nonce'', JNum 42)]),
           (''{"sub":"alice","nonce":42}'', JObj [(''sub'', JStr ''alice''), (''nonce'', JNum 42)]),
           (''{"sub":"alice","nonce":true}'', JObj [(''sub'', JStr ''alice''), (''nonce'', JBool True)]),
           (''{"Primary":42}'', JObj [(''Primary'', JNum 42)]),
           (''{"Primary":1}'', JObj [(''Primary'', JNum 1)]),
           (''{"constructor":42}'', JObj [(''constructor'', JNum 42)]),
           (''{"Primary":"alice"}'', JObj [(''Primary'', JStr ''alice'')]),
           (''{}'', JObj []),
           (''{"valid": false}'', JObj [(''valid'', JBool False)]),
           (''{"valid":"false","uid":"alice"}'',
              JObj [(''valid'', JStr ''false''), (''uid'', JStr ''alice'')]),
           (''{"valid":true,"uid":"alice"}'', JObj [(''valid'', JBool True), (''uid'', JStr ''alice'')]),
           (''{"valid":true,"uid":"bob"}'', JObj [(''valid'', JBool True), (''uid'', JStr ''bob'')]),
           (''null'', JNull)] s
        of None \<Rightarrow> Inl ''Unexpected token'' | Some v \<Rightarrow> Inr v),
      atob = map_of
        [(''eyJzdWIiOiJib2IiLCJub25jZSI6NDJ9'', ''{"sub":"bob","nonce":42}''),
         (''eyJzdWIiOiJhbGljZSIsIm5vbmNlIjo0Mn0'', ''{"sub":"alice","nonce":42}''),
         (''eyJzdWIiOiJhbGljZSIsIm5vbmNlIjp0cnVlfQ'', ''{"sub":"alice","nonce":true}'')],
      string_to_number = map_of [(''0'', 0), (''42'', 42)],
      inherited = (\<lambda>v k. if k \<in> set object_prototype_names then JObj [] else JUndefined)\<rparr>\<close>

definition demo_page :: page where
  "demo_page =
     \<lparr>document_origin = ''https://rp.example'', has_body = True,
      sessionCheck_html = ''https://rp.example/sessionCheck.html'',
      body_children = [], message_listeners = [], storage = Map.empty, next_handle = 0\<rparr>"

text \<open>A configuration of the standards-based mode, with every handler supplied.\<close>

definition standards_config :: config where
  "standards_config =
     \<lparr>cfg_subject = Some ''alice'', cfg_invalidSessionHandler = True,
      cfg_initialSessionSuccessHandler = True, cfg_sessionClaimsHandler = True,
      cfg_cooldownPeriod = JNum 5, cfg_amUrl = None, cfg_ssoToken = None,
      cfg_ssoTokenName = None, cfg_opUrl = Some ''https://op.example/authorize'',
      cfg_responseType = Some ''id_token'', cfg_clientId = Some ''myRP'',
      cfg_authId = None, cfg_idToken = None, cfg_redirectUri = None, cfg_scope = None\<rparr>"

text \<open>A configuration of the trusted-token mode.\<close>

definition trusted_config :: config where
  "trusted_config =
     \<lparr>cfg_subject = Some ''alice'', cfg_invalidSessionHandler = True,
      cfg_initialSessionSuccessHandler = True, cfg_sessionClaimsHandler = False,
      cfg_cooldownPeriod = JUndefined, cfg_amUrl = Some ''https://am.example/json'',
      cfg_ssoToken = Some ''token'', cfg_ssoTokenName = None, cfg_opUrl = None,
      cfg_responseType = None, cfg_clientId = None, cfg_authId = None, cfg_idToken = None,
      cfg_redirectUri = None, cfg_scope = None\<rparr>"

text \<open>
  The frame after a redirect from the provider: the given fragment and query, the given
  storage, hosted on the origin of the page.
\<close>

definition demo_frame :: "string \<Rightarrow> string \<Rightarrow> (string \<rightharpoonup> string) \<Rightarrow> frame_window" where
  "demo_frame hash search st =
     \<lparr>parent_origin = ''https://rp.example'', window_origin = ''https://rp.example'',
      location_origin = ''https://rp.example'', location_hash = hash,
      location_search = search, sessionStorage = st\<rparr>"


text \<open>
  The instance and the page that the constructor makes of \<open>standards_config\<close> on
  \<open>demo_page\<close>, and the world they start in.
\<close>

definition standards_instance :: session_check where
  "standards_instance =
     \<lparr>config = standards_config, request_check_count = 0, cooldownPeriod = JNum 5,
      subject = Some ''alice'', checkSessionTimestamp = None,
      ssoTokenName = None, ssoToken = None, amUrl = None,
      redirectUri = Some ''https://rp.example/sessionCheck.html'', idToken = None,
      clientId = Some ''myRP'', authId = Some ''Primary'',
      opUrl = Some ''https://op.example/authorize'', responseType = Some ''id_token'',
      scope = Some ''openid'', iframe = Some 0, eventListenerHandle = Some 0\<rparr>"

definition standards_page :: page where
  "standards_page =
     \<lparr>document_origin = ''https://rp.example'', has_body = True,
      sessionCheck_html = ''https://rp.example/sessionCheck.html'',
      body_children = [0], message_listeners = [0],
      storage = [''sessionCheckSubject-Primary'' \<mapsto> ''alice''], next_handle = 1\<rparr>"

definition standards_world :: world where
  "standards_world =
     \<lparr>the_page = standards_page, the_instance = standards_instance,
      the_listener = Some 0, requests = [], pending_requests = 0\<rparr>"

text \<open>The same for \<open>trusted_config\<close>.\<close>

definition trusted_instance :: session_check where
  "trusted_instance =
     \<lparr>config = trusted_config, request_check_count = 0, cooldownPeriod = JNum 5,
      subject = Some ''alice'', checkSessionTimestamp = None,
      ssoTokenName = Some ''iPlanetDirectoryPro'', ssoToken = Some ''token'',
      amUrl = Some ''https://am.example/json/sessions?_action=validate'',
      redirectUri = None, idToken = None, clientId = None, authId = None,
      opUrl = None, responseType = None, scope = None,
      iframe = None, eventListenerHandle = None\<rparr>"

definition trusted_world :: world where
  "trusted_world =
     \<lparr>the_page = demo_page, the_instance = trusted_instance,
      the_listener = None, requests = [], pending_requests = 0\<rparr>"

text \<open>
  Two instances on one page, with the ids \<open>A\<close> and \<open>B\<close>: the second is constructed on the
  page the first construction leaves.
\<close>

definition config_A :: config where
  "config_A = standards_config\<lparr>cfg_authId := Some ''A''\<rparr>"

definition config_B :: config where
  "config_B = standards_config\<lparr>cfg_authId := Some ''B''\<rparr>"

definition instance_A :: session_check where
  "instance_A = standards_instance\<lparr>config := config_A, authId := Some ''A''\<rparr>"

definition instance_B :: session_check where
  "instance_B =
     standards_instance\<lparr>config := config_B, authId := Some ''B'',
                        iframe := Some 1, eventListenerHandle := Some 1\<rparr>"

definition page_A :: page where
  "page_A = standards_page\<lparr>storage := [''sessionCheckSubject-A'' \<mapsto> ''alice'']\<rparr>"

definition page_AB :: page where
  "page_AB =
     \<lparr>document_origin = ''https://rp.example'', has_body = True,
      sessionCheck_html = ''https://rp.example/sessionCheck.html'',
      body_children = [0, 1], message_listeners = [0, 1],
      storage = [''sessionCheckSubject-A'' \<mapsto> ''alice'', ''sessionCheckSubject-B'' \<mapsto> ''alice''],
      next_handle = 2\<rparr>"

text \<open>
  A configuration whose \<open>cooldownPeriod\<close> is the string \<open>0\<close>, and the world its
  construction on \<open>demo_page\<close> starts in.
\<close>

definition zero_cooldown_config :: config where
  "zero_cooldown_config = standards_config\<lparr>cfg_cooldownPeriod := JStr ''0''\<rparr>"

definition zero_cooldown_world :: world where
  "zero_cooldown_world =
     standards_world
       \<lparr>the_instance :=
          standards_instance\<lparr>config := zero_cooldown_config, cooldownPeriod := JStr ''0''\<rparr>\<rparr>"

text \<open>The message the verifier posts for the error response \<open>login_required\<close>.\<close>

definition login_required_message :: msg_data where
  "login_required_message =
     \<lparr>data_message = JStr ''sessionCheckFailed'', data_reason = JStr ''login_required'',
      data_claims = JUndefined, data_authId = JUndefined\<rparr>"

text \<open>A relay message as the window of the page receives it from its own origin.\<close>

definition from_own_origin :: "msg_data \<Rightarrow> message_event" where
  "from_own_origin d = \<lparr>origin = ''https://rp.example'', data = d\<rparr>"

section \<open>Auxiliary facts\<close>

lemma construct_standards:
  "construct demo_page standards_config = Inr (standards_page, standards_instance)"
  by (simp add: construct_def demo_page_def standards_config_def standards_page_def
      standards_instance_def cooldown_or_default_def truthy_str_def or_default_def js_str_def
      Let_def)

lemma construct_trusted:
  "construct demo_page trusted_config = Inr (demo_page, trusted_instance)"
  by (simp add: construct_def demo_page_def trusted_config_def 
      trusted_instance_def cooldown_or_default_def truthy_str_def or_default_def js_str_def
      Let_def)

lemma construct_A: "construct demo_page config_A = Inr (page_A, instance_A)"
  by (simp add: construct_def demo_page_def standards_config_def standards_page_def
      standards_instance_def cooldown_or_default_def truthy_str_def or_default_def js_str_def
      Let_def config_A_def page_A_def instance_A_def)

lemma construct_B: "construct page_A config_B = Inr (page_AB, instance_B)"
  by (simp add: construct_def demo_page_def standards_config_def standards_page_def
      standards_instance_def cooldown_or_default_def truthy_str_def or_default_def js_str_def
      Let_def config_B_def page_A_def instance_B_def page_AB_def fun_upd_twist)

lemmas scenario_defs =
  demo_page_def standards_config_def standards_page_def standards_instance_def
  standards_world_def trusted_config_def trusted_instance_def trusted_world_def

lemmas eval_defs =
  step_def triggerSessionCheck_def cooldown_over_def sessionCheckRequest_def
  authorizationUrl_def truthy_str_def js_str_def opt_val_def window_message_def
  eventListener_def destroy_def validationHandler_def call_invalidSessionHandler_def
  and_then_def own_prop_def Let_def



lemma run_append:
  "run b w (xs @ ys) =
     (case run b w xs of (w1, c1) \<Rightarrow> case run b w1 ys of (w2, c2) \<Rightarrow> (w2, c1 @ c2))"
  by (induction xs arbitrary: w) (auto split: prod.splits)

lemma run_Cons_fst: "fst (run b w (ev # evs)) = fst (run b (fst (step b w ev)) evs)"
  by (simp split: prod.splits)

lemma run_Cons_snd:
  "snd (run b w (ev # evs)) = snd (step b w ev) @ snd (run b (fst (step b w ev)) evs)"
  by (simp split: prod.splits)

lemma new_world_standards_mode:
  "new_world p c = Inr w \<Longrightarrow> \<not> truthy_str (cfg_ssoToken c) \<Longrightarrow> standards_mode w"
  by (auto simp add: new_world_def construct_def standards_mode_def Let_def truthy_str_def
      split: sum.splits if_splits)

lemma step_standards_mode:
  "standards_mode w \<Longrightarrow> standards_mode (fst (step b w ev))"
  by (cases ev)
    (auto simp add: standards_mode_def step_def triggerSessionCheck_def sessionCheckRequest_def
      destroy_def and_then_def Let_def split: option.splits sum.splits)

lemma run_standards_mode:
  "standards_mode w \<Longrightarrow> standards_mode (fst (run b w evs))"
proof (induction evs arbitrary: w)
  case Nil
  then show ?case by simp
next
  case (Cons ev evs)
  from Cons.prems have "standards_mode (fst (step b w ev))"
    by (rule step_standards_mode)
  then have "standards_mode (fst (run b (fst (step b w ev)) evs))"
    by (rule Cons.IH)
  then show ?case by (simp only: run_Cons_fst)
qed

lemma step_Destroy_torn_down:
  "standards_mode w \<Longrightarrow> torn_down (fst (step b w Destroy))"
  by (auto simp add: torn_down_def standards_mode_def step_def destroy_def Let_def
      split: option.splits)

lemma step_torn_down:
  "torn_down w \<Longrightarrow> torn_down (fst (step b w ev)) \<and> snd (step b w ev) = []"
  by (cases ev)
    (auto simp add: torn_down_def step_def triggerSessionCheck_def
      sessionCheckRequest_def destroy_def window_message_def and_then_def Let_def
      split: option.splits sum.splits)

lemma run_torn_down:
  "torn_down w \<Longrightarrow> snd (run b w evs) = []"
proof (induction evs arbitrary: w)
  case Nil
  then show ?case by simp
next
  case (Cons ev evs)
  from Cons.prems have s: "torn_down (fst (step b w ev))" "snd (step b w ev) = []"
    using step_torn_down by blast+
  from s(1) have "snd (run b (fst (step b w ev)) evs) = []"
    by (rule Cons.IH)
  with s(2) show ?case by (simp only: run_Cons_snd append_Nil)
qed

lemma destroy_twice:
  assumes "destroy p this = Inr (p', this')"
  shows "destroy p' this' = Inr (p', this')"
proof -
  from assms have i: "iframe this' = None" "eventListenerHandle this' = None"
      "authId this' = authId this"
    by (auto simp add: destroy_def Let_def)
  from assms have s: "storage p' (''sessionCheckSubject-'' @ js_str (authId this)) = None"
      "storage p' (''sessionCheckNonce-'' @ js_str (authId this)) = None"
    by (auto simp add: destroy_def Let_def split: option.splits if_splits)
  have "(storage p')(''sessionCheckSubject-'' @ js_str (authId this) := None,
          ''sessionCheckNonce-'' @ js_str (authId this) := None) = storage p'"
    using s by (auto simp add: fun_eq_iff)
  then show ?thesis
    using i assms by (simp add: destroy_def Let_def)
qed

lemma js_Number_cases:
  "js_Number b x = Inl TypeError \<or> js_Number b x = Inr JNaN \<or>
   (\<exists>m. js_Number b x = Inr (JNum m))"
  by (cases x) (auto split: option.splits)

lemma js_Number_throws:
  "(js_Number b x = Inl e) =
     (e = TypeError \<and> (\<exists>kvs. x = JObj kvs \<and> map_of kvs ''toString'' \<noteq> None))"
  by (cases x) auto

lemma not_a_number_differs:
  assumes "\<forall>n. v \<noteq> JNum n" and "js_Number b x = Inr y"
  shows "\<not> strict_eq v y"
proof -
  from assms(2) have "y = JNaN \<or> (\<exists>m. y = JNum m)"
    using js_Number_cases [of b x] by auto
  then show ?thesis
    using assms(1) by (cases v) auto
qed

section \<open>The response verifier\<close>




text \<open>
  Claim C9 at a failing input. The dispatcher records the nonce under the key
  \<open>sessionCheckNonce-Primary\<close>; the verifier reads the item \<open>sessionCheckNonce\<close>, which
  is not there, so its ledger is \<open>null\<close> and the lookup of the \<open>state\<close> throws a
  \<open>TypeError\<close>. After a dispatch with the nonce 42, the response with the claims of
  \<open>alice\<close> and the nonce 42 is not classified at all: nothing is posted to the parent.
\<close>

theorem C9_absent_ledger_throws:
  "new_world demo_page standards_config = Inr standards_world \<and>
   requests (fst (step demo_builtins standards_world (Trigger 1000 42))) =
     [Navigate 0
        ''https://op.example/authorize?prompt=none&client_id=myRP&response_type=id_token&redirect_uri=https://rp.example/sessionCheck.html&state=Primary&nonce=42&scope=openid''] \<and>
   storage (the_page (fst (step demo_builtins standards_world (Trigger 1000 42))))
     ''sessionCheckNonce-Primary'' = Some ''42'' \<and>
   storage (the_page (fst (step demo_builtins standards_world (Trigger 1000 42))))
     ''sessionCheckNonce'' = None \<and>
   sessionCheckFrame demo_builtins
     (demo_frame ''#id_token=h.eyJzdWIiOiJhbGljZSIsIm5vbmNlIjo0Mn0.s&state=Primary'' []
        (storage (the_page (fst (step demo_builtins standards_world (Trigger 1000 42)))))) =
     Inl TypeError"
proof -
  have w: "new_world demo_page standards_config = Inr standards_world"
    by (simp add: new_world_def construct_standards standards_world_def standards_instance_def)
  have n: "show_nat 42 = ''42''"
    by (simp add: show_nat.simps)
  have r: "requests (fst (step demo_builtins standards_world (Trigger 1000 42))) =
     [Navigate 0
        ''https://op.example/authorize?prompt=none&client_id=myRP&response_type=id_token&redirect_uri=https://rp.example/sessionCheck.html&state=Primary&nonce=42&scope=openid'']"
    by (simp add: scenario_defs eval_defs n)
  have s: "storage (the_page (fst (step demo_builtins standards_world (Trigger 1000 42)))) =
     [''sessionCheckSubject-Primary'' \<mapsto> ''alice'', ''sessionCheckNonce-Primary'' \<mapsto> ''42'']"
    by (simp add: scenario_defs eval_defs n)
  have f: "sessionCheckFrame demo_builtins
     (demo_frame ''#id_token=h.eyJzdWIiOiJhbGljZSIsIm5vbmNlIjo0Mn0.s&state=Primary'' []
        [''sessionCheckSubject-Primary'' \<mapsto> ''alice'', ''sessionCheckNonce-Primary'' \<mapsto> ''42'']) =
     Inl TypeError"
    by (simp add: sessionCheckFrame_def demo_frame_def response_params_def add_entry_def
      classify_def param_set_def truthy_str_def js_str_def getIdTokenClaims_def
      JSON_parse_def JSON_parse_item_def demo_builtins_def and_then_def Let_def)
  show ?thesis
    unfolding s using w r f by simp
qed

section \<open>The cooldown gate and the request counter\<close>




text \<open>
  Claim C8, as stated, fails after teardown: on a destroyed instance a call of
  \<open>triggerSessionCheck\<close> that passes the gate makes no request, and the counter goes from
  0 to 1.
\<close>

theorem C8_counterexample:
  "request_check_count (the_instance standards_world) = 0 \<and>
   request_check_count
     (the_instance (fst (run demo_builtins standards_world [Destroy, Trigger 1000 42]))) = 1 \<and>
   requests (fst (run demo_builtins standards_world [Destroy, Trigger 1000 42])) = []"
  by (simp add: scenario_defs eval_defs)

text \<open>
  Claim C8, amended. The counter is 0 after construction. A call of
  \<open>triggerSessionCheck\<close> that passes the cooldown gate adds one to it, whether or not the
  instance has been torn down; a call the gate drops, a message, a completed validation
  request and \<open>destroy\<close> leave it as it is. Every step that makes a request has added one
  to the counter.
\<close>

theorem C8_request_check_count:
  "(construct p c = Inr (p', this0) \<longrightarrow> request_check_count this0 = 0) \<and>
   request_check_count (the_instance (fst (step b w ev))) =
     (case ev of
        Trigger now n \<Rightarrow>
          if cooldown_over b (the_instance w) now = Inr True
          then request_check_count (the_instance w) + 1
          else request_check_count (the_instance w)
      | Message e \<Rightarrow> request_check_count (the_instance w)
      | Load text \<Rightarrow> request_check_count (the_instance w)
      | Destroy \<Rightarrow> request_check_count (the_instance w)) \<and>
   (requests (fst (step b w ev)) \<noteq> requests w \<longrightarrow>
      request_check_count (the_instance (fst (step b w ev))) =
        request_check_count (the_instance w) + 1)"
proof -
  have 1: "construct p c = Inr (p', this0) \<longrightarrow> request_check_count this0 = 0"
    by (auto simp add: construct_def Let_def split: if_splits)
  have 2: "request_check_count (the_instance (fst (step b w ev))) =
     (case ev of
        Trigger now n \<Rightarrow>
          if cooldown_over b (the_instance w) now = Inr True
          then request_check_count (the_instance w) + 1
          else request_check_count (the_instance w)
      | Message e \<Rightarrow> request_check_count (the_instance w)
      | Load text \<Rightarrow> request_check_count (the_instance w)
      | Destroy \<Rightarrow> request_check_count (the_instance w))"
    by (cases ev)
      (auto simp add: step_def triggerSessionCheck_def destroy_def and_then_def Let_def
        split: prod.splits sum.splits)
  have 3: "requests (fst (step b w ev)) \<noteq> requests w \<longrightarrow>
      request_check_count (the_instance (fst (step b w ev))) =
        request_check_count (the_instance w) + 1"
    by (cases ev)
      (auto simp add: step_def triggerSessionCheck_def destroy_def and_then_def Let_def
        split: prod.splits sum.splits if_splits)
  from 1 2 3 show ?thesis by blast
qed

theorem C8_witness:
  "request_check_count standards_instance = 0 \<and>
   request_check_count (the_instance (fst (step demo_builtins standards_world (Trigger 1000 42)))) = 1 \<and>
   requests (fst (step demo_builtins standards_world (Trigger 1000 42))) \<noteq> requests standards_world"
proof -
  have c: "construct demo_page standards_config = Inr (standards_page, standards_instance)"
    by (rule construct_standards)
  have r: "requests (fst (step demo_builtins standards_world (Trigger 1000 42))) \<noteq>
      requests standards_world"
    by (simp add: scenario_defs eval_defs)
  show ?thesis
    using C8_request_check_count [of demo_page standards_config standards_page standards_instance
        demo_builtins standards_world "Trigger 1000 42"] c r
    by (simp add: cooldown_over_def standards_world_def standards_instance_def)
qed

section \<open>Construction\<close>

text \<open>
  Claim C10, as stated, fails: the constructor keeps every truthy \<open>cooldownPeriod\<close>, and
  the string \<open>0\<close> is truthy. The gate multiplies it by 1000, which gives the number 0: the
  window has length zero, and two calls one millisecond apart both dispatch.
\<close>

theorem C10_counterexample:
  "new_world demo_page zero_cooldown_config = Inr zero_cooldown_world \<and>
   cooldownPeriod (the_instance zero_cooldown_world) = JStr ''0'' \<and>
   length (requests (fst (run demo_builtins zero_cooldown_world
                            [Trigger 1000 42, Trigger 1001 43]))) = 2 \<and>
   request_check_count (the_instance (fst (run demo_builtins zero_cooldown_world
                                            [Trigger 1000 42, Trigger 1001 43]))) = 2"
  by (simp add: new_world_def construct_def zero_cooldown_config_def zero_cooldown_world_def
        scenario_defs cooldown_or_default_def truthy_str_def or_default_def js_str_def Let_def)
     (simp add: zero_cooldown_world_def zero_cooldown_config_def scenario_defs eval_defs
        demo_builtins_def)

text \<open>
  Claim C10, amended. Whenever the constructor returns an instance: if \<open>cooldownPeriod\<close>
  was left out or given as a falsy value (\<open>undefined\<close>, \<open>null\<close>, \<open>false\<close>, 0, \<open>NaN\<close>, the
  empty string), the instance has the cooldown of 5 seconds; every other value is kept as
  it was given.
\<close>

theorem C10_falsy_cooldown_defaults:
  assumes "construct p c = Inr (p', this)"
  shows "(cfg_cooldownPeriod c = JUndefined \<or> cfg_cooldownPeriod c = JNull \<or>
          cfg_cooldownPeriod c = JBool False \<or> cfg_cooldownPeriod c = JNum 0 \<or>
          cfg_cooldownPeriod c = JNaN \<or> cfg_cooldownPeriod c = JStr []
          \<longrightarrow> cooldownPeriod this = JNum 5) \<and>
         (cfg_cooldownPeriod c \<noteq> JUndefined \<and> cfg_cooldownPeriod c \<noteq> JNull \<and>
          cfg_cooldownPeriod c \<noteq> JBool False \<and> cfg_cooldownPeriod c \<noteq> JNum 0 \<and>
          cfg_cooldownPeriod c \<noteq> JNaN \<and> cfg_cooldownPeriod c \<noteq> JStr []
          \<longrightarrow> cooldownPeriod this = cfg_cooldownPeriod c)"
proof -
  have t: "truthy v = (v \<noteq> JUndefined \<and> v \<noteq> JNull \<and> v \<noteq> JBool False \<and> v \<noteq> JNum 0 \<and>
                      v \<noteq> JNaN \<and> v \<noteq> JStr [])" for v
    by (cases v) auto
  from assms have "cooldownPeriod this = cooldown_or_default (cfg_cooldownPeriod c)"
    by (auto simp add: construct_def Let_def split: if_splits)
  then show ?thesis
    by (auto simp add: cooldown_or_default_def t)
qed

theorem C10_witness:
  "construct demo_page (standards_config\<lparr>cfg_cooldownPeriod := JNum 0\<rparr>) =
     Inr (standards_page, standards_instance\<lparr>config := standards_config\<lparr>cfg_cooldownPeriod := JNum 0\<rparr>\<rparr>) \<and>
   cooldownPeriod (standards_instance\<lparr>config := standards_config\<lparr>cfg_cooldownPeriod := JNum 0\<rparr>\<rparr>) =
     JNum 5 \<and>
   construct demo_page standards_config = Inr (standards_page, standards_instance) \<and>
   cooldownPeriod standards_instance = cfg_cooldownPeriod standards_config"
proof -
  have c: "construct demo_page (standards_config\<lparr>cfg_cooldownPeriod := JNum 0\<rparr>) =
     Inr (standards_page, standards_instance\<lparr>config := standards_config\<lparr>cfg_cooldownPeriod := JNum 0\<rparr>\<rparr>)"
    by (simp add: construct_def demo_page_def standards_config_def standards_page_def
      standards_instance_def cooldown_or_default_def truthy_str_def or_default_def js_str_def
      Let_def)
  have d: "cfg_cooldownPeriod standards_config = JNum 5"
    by (simp add: standards_config_def)
  show ?thesis
    using C10_falsy_cooldown_defaults [OF c] C10_falsy_cooldown_defaults [OF construct_standards]
      c construct_standards d
    by simp
qed

text \<open>
  Claim C5. In the standards-based mode (no \<open>ssoToken\<close> in the configuration; with one,
  the constructor reads neither \<open>responseType\<close> nor \<open>idToken\<close>), without an \<open>idToken\<close>:
  the constructor throws its configuration failure when \<open>responseType\<close> is \<open>none\<close>, and
  returns an instance of response type \<open>id_token\<close> when \<open>responseType\<close> is \<open>id_token\<close> and
  the document has a body to hold the iframe.
\<close>

theorem C5_construction:
  assumes "\<not> truthy_str (cfg_ssoToken c)" and "\<not> truthy_str (cfg_idToken c)"
  shows "(cfg_responseType c = Some ''none'' \<longrightarrow>
            construct p c = Inl (ThrownString none_idToken_message)) \<and>
         (cfg_responseType c = Some ''id_token'' \<and> has_body p \<longrightarrow>
            (\<exists>p' this. construct p c = Inr (p', this) \<and>
                        responseType this = Some ''id_token'' \<and> idToken this = cfg_idToken c))"
  using assms
  by (auto simp add: construct_def or_default_def Let_def)

theorem C5_witness:
  "construct demo_page (standards_config\<lparr>cfg_responseType := Some ''none''\<rparr>) =
     Inl (ThrownString none_idToken_message) \<and>
   (\<exists>p' this. construct demo_page standards_config = Inr (p', this) \<and>
               responseType this = Some ''id_token'' \<and> idToken this = None)"
proof -
  have 1: "\<not> truthy_str (cfg_ssoToken (standards_config\<lparr>cfg_responseType := Some ''none''\<rparr>))"
    "\<not> truthy_str (cfg_idToken (standards_config\<lparr>cfg_responseType := Some ''none''\<rparr>))"
    "\<not> truthy_str (cfg_ssoToken standards_config)" "\<not> truthy_str (cfg_idToken standards_config)"
    by (simp_all add: standards_config_def truthy_str_def)
  have 2: "cfg_responseType standards_config = Some ''id_token''" "has_body demo_page"
    "cfg_idToken standards_config = None"
    by (simp_all add: standards_config_def demo_page_def)
  show ?thesis
    using C5_construction [OF 1(1) 1(2), of demo_page] C5_construction [OF 1(3) 1(4), of demo_page] 2
    by simp
qed

section \<open>Results and handlers\<close>

text \<open>
  Claim C7, as stated, fails: the handler tests the \<open>valid\<close> property for truthiness, so
  a response whose \<open>valid\<close> is the string \<open>false\<close> (with the \<open>uid\<close> of the subject)
  counts as a valid session; on the first check the first-success handler is called and
  the failure handler is not.
\<close>

theorem C7_counterexample:
  \<open>new_world demo_page trusted_config = Inr trusted_world \<and>
   snd (run demo_builtins trusted_world
          [Trigger 1000 0, Load ''{"valid":"false","uid":"alice"}'']) =
     [InitialSessionSuccess]\<close>
  by (simp add: new_world_def construct_trusted trusted_world_def trusted_instance_def)
     (simp add: scenario_defs eval_defs demo_builtins_def)

text \<open>
  Claim C7, amended. In the trusted-token mode, with the failure handler supplied: when
  \<^verbatim>\<open>JSON.parse\<close> throws on the response text, the failure handler is called with the
  message of the exception; when the text parses to a value whose properties can be read,
  the failure handler is called with \<open>invalid_session\<close> if the \<open>valid\<close> property is not
  truthy, else with \<open>subject_mismatch\<close> if a subject is configured and is not the \<open>uid\<close>
  property; else the response is a success: the failure handler is not called, and the
  first-success handler is called when it is supplied and the counter is 1. Every call of
  the failure handler carries the counter.
\<close>

theorem C7_validation_response:
  assumes "cfg_invalidSessionHandler (config this)"
  shows "(json_parse b text = Inl m \<longrightarrow>
            validationHandler b this text =
              Inr [InvalidSession (JStr m) (request_check_count this)]) \<and>
         (json_parse b text = Inr v \<and> get_prop v ''valid'' = Inr valid \<and>
          get_prop v ''uid'' = Inr uid \<longrightarrow>
            validationHandler b this text =
              (if \<not> truthy valid then
                 Inr [InvalidSession (JStr ''invalid_session'') (request_check_count this)]
               else if truthy_str (subject this) \<and> \<not> strict_eq (opt_val (subject this)) uid then
                 Inr [InvalidSession (JStr ''subject_mismatch'') (request_check_count this)]
               else if cfg_initialSessionSuccessHandler (config this) \<and>
                       request_check_count this = 1 then
                 Inr [InitialSessionSuccess]
               else Inr []))"
  using assms
  by (simp add: validationHandler_def call_invalidSessionHandler_def and_then_def)

theorem C7_witness:
  \<open>validationHandler demo_builtins trusted_instance ''{"valid": false}'' =
     Inr [InvalidSession (JStr ''invalid_session'') 0] \<and>
   validationHandler demo_builtins trusted_instance ''{"valid":true,"uid":"bob"}'' =
     Inr [InvalidSession (JStr ''subject_mismatch'') 0] \<and>
   validationHandler demo_builtins trusted_instance ''<html>'' =
     Inr [InvalidSession (JStr ''Unexpected token'') 0]\<close>
proof -
  have h: "cfg_invalidSessionHandler (config trusted_instance)"
    by (simp add: trusted_instance_def trusted_config_def)
  have i: "request_check_count trusted_instance = 0" "subject trusted_instance = Some ''alice''"
    by (simp_all add: trusted_instance_def)
  have 1: \<open>json_parse demo_builtins ''{"valid": false}'' = Inr (JObj [(''valid'', JBool False)])\<close>
    and 2: \<open>json_parse demo_builtins ''{"valid":true,"uid":"bob"}'' =
              Inr (JObj [(''valid'', JBool True), (''uid'', JStr ''bob'')])\<close>
    and 3: \<open>json_parse demo_builtins ''<html>'' = Inl ''Unexpected token''\<close>
    by (simp_all add: demo_builtins_def)
  show ?thesis
    using C7_validation_response [OF h, of demo_builtins \<open>''{"valid": false}''\<close> _
        "JObj [(''valid'', JBool False)]" "JBool False" JUndefined]
      C7_validation_response [OF h, of demo_builtins \<open>''{"valid":true,"uid":"bob"}''\<close> _
        "JObj [(''valid'', JBool True), (''uid'', JStr ''bob'')]" "JBool True" "JStr ''bob''"]
      C7_validation_response [OF h, of demo_builtins \<open>''<html>''\<close> "''Unexpected token''"]
      1 2 3 i
    by (simp add: own_prop_def truthy_str_def opt_val_def)
qed

text \<open>
  Claim C6 at a failing input. The first-success handler is called when a success arrives
  while the counter is 1, not at the first success. When the first check fails and the
  second succeeds, and when a second request is dispatched before the first success
  arrives, the first success of the instance comes with the counter at 2: the claims
  handler is called and the first-success handler never is.
\<close>

theorem C6_first_success_not_reported:
  "snd (run demo_builtins standards_world
          [Trigger 1000 42,
           Message (from_own_origin (sessionCheckFailed ''nonce_mismatch'' (JStr ''Primary''))),
           Trigger 7000 43,
           Message (from_own_origin
             (sessionCheckSucceeded (JObj [(''sub'', JStr ''alice''), (''nonce'', JNum 43)])
                (JStr ''Primary'')))]) =
     [InvalidSession (JStr ''nonce_mismatch'') 1,
      SessionClaims (JObj [(''sub'', JStr ''alice''), (''nonce'', JNum 43)]) 2] \<and>
   snd (run demo_builtins standards_world
          [Trigger 1000 42, Trigger 7000 43,
           Message (from_own_origin
             (sessionCheckSucceeded (JObj [(''sub'', JStr ''alice''), (''nonce'', JNum 43)])
                (JStr ''Primary'')))]) =
     [SessionClaims (JObj [(''sub'', JStr ''alice''), (''nonce'', JNum 43)]) 2]"
  by (simp add: scenario_defs eval_defs from_own_origin_def sessionCheckFailed_def
      sessionCheckSucceeded_def)

section \<open>Teardown\<close>

text \<open>
  Claim C4, as stated, fails in the trusted-token mode: \<open>destroy\<close> does nothing about a
  validation request under way. A request is sent, the instance is destroyed, the response
  arrives, and the failure handler is called.
\<close>

theorem C4_counterexample:
  "new_world demo_page trusted_config = Inr trusted_world \<and>
   snd (run demo_builtins trusted_world [Trigger 1000 0, Destroy]) = [] \<and>
   snd (run demo_builtins (fst (run demo_builtins trusted_world [Trigger 1000 0, Destroy]))
          [Load ''{\"valid\": false}'']) =
     [InvalidSession (JStr ''invalid_session'') 1]"
  by (simp add: new_world_def construct_trusted trusted_world_def trusted_instance_def)
     (simp add: scenario_defs eval_defs demo_builtins_def)

text \<open>
  Claim C4, amended. For an instance of the standards-based mode, whatever happened before
  \<open>destroy\<close>: no sequence of events after it (messages, triggers, responses, further
  calls of \<open>destroy\<close>) calls a handler, because \<open>destroy\<close> takes the listener of the
  instance off the window. In either mode a second \<open>destroy\<close> does not throw, and leaves
  the page and the instance as the first left them.
\<close>

theorem C4_destroy_silences:
  assumes "new_world p c = Inr w" and "\<not> truthy_str (cfg_ssoToken c)"
  shows "snd (run b (fst (run b w (before @ [Destroy]))) after) = [] \<and>
         (\<forall>p1 this1 p2 this2.
            destroy p1 this1 = Inr (p2, this2) \<longrightarrow> destroy p2 this2 = Inr (p2, this2))"
proof -
  from assms have "standards_mode w" by (rule new_world_standards_mode)
  then have "standards_mode (fst (run b w before))" by (rule run_standards_mode)
  then have "torn_down (fst (step b (fst (run b w before)) Destroy))"
    by (rule step_Destroy_torn_down)
  moreover have "fst (run b w (before @ [Destroy])) = fst (step b (fst (run b w before)) Destroy)"
    by (simp add: run_append split: prod.splits)
  ultimately have "torn_down (fst (run b w (before @ [Destroy])))" by simp
  then have "snd (run b (fst (run b w (before @ [Destroy]))) after) = []"
    by (rule run_torn_down)
  then show ?thesis using destroy_twice by blast
qed

text \<open>
  On the instance of the examples a failure message calls the failure handler before
  \<open>destroy\<close>, and no event calls anything after it.
\<close>

theorem C4_witness:
  "new_world demo_page standards_config = Inr standards_world \<and>
   snd (run demo_builtins standards_world
          [Message (from_own_origin (sessionCheckFailed ''login_required'' (JStr ''Primary'')))]) =
     [InvalidSession (JStr ''login_required'') 0] \<and>
   snd (run demo_builtins
          (fst (run demo_builtins standards_world ([Trigger 1000 42] @ [Destroy])))
          [Message (from_own_origin (sessionCheckFailed ''login_required'' (JStr ''Primary''))),
           Trigger 7000 43,
           Message (from_own_origin (sessionCheckSucceeded JUndefined (JStr ''Primary''))),
           Destroy]) = []"
proof -
  have w: "new_world demo_page standards_config = Inr standards_world"
    by (simp add: new_world_def construct_standards standards_world_def standards_instance_def)
  have n: "\<not> truthy_str (cfg_ssoToken standards_config)"
    by (simp add: standards_config_def truthy_str_def)
  have live: "snd (run demo_builtins standards_world
          [Message (from_own_origin (sessionCheckFailed ''login_required'' (JStr ''Primary'')))]) =
     [InvalidSession (JStr ''login_required'') 0]"
    by (simp add: scenario_defs eval_defs from_own_origin_def sessionCheckFailed_def)
  show ?thesis
    using C4_destroy_silences [OF w n, of demo_builtins "[Trigger 1000 42]"
        "[Message (from_own_origin (sessionCheckFailed ''login_required'' (JStr ''Primary''))),
          Trigger 7000 43,
          Message (from_own_origin (sessionCheckSucceeded JUndefined (JStr ''Primary''))),
          Destroy]"] w live
    by simp
qed

section \<open>Two instances on one page\<close>

text \<open>
  Claim C3 at a failing input. The message the verifier posts for an error response has
  no \<open>authId\<close>, unlike its other messages, and the listener lets a message without
  \<open>authId\<close> through. With the instances \<open>A\<close> and \<open>B\<close> on one page, the error response
  \<open>login_required\<close> to a check of \<open>A\<close> (\<open>state=A\<close>) calls the failure handler of \<open>B\<close> as
  well, which has not dispatched anything.
\<close>

theorem C3_error_relay_reaches_other_instance:
  "construct demo_page config_A = Inr (page_A, instance_A) \<and>
   construct page_A config_B = Inr (page_AB, instance_B) \<and>
   eventListenerHandle instance_A = Some 0 \<and>
   eventListenerHandle instance_B = Some 1 \<and>
   sessionCheckFrame demo_builtins
     (demo_frame [] ''?error=login_required&state=A'' (storage page_AB)) =
     Inr (Some (login_required_message, ''https://rp.example'')) \<and>
   relay (demo_frame [] ''?error=login_required&state=A'' (storage page_AB)) page_AB
     (login_required_message, ''https://rp.example'') =
     Some (from_own_origin login_required_message) \<and>
   window_message page_AB 0 instance_A (from_own_origin login_required_message) =
     [InvalidSession (JStr ''login_required'') 0] \<and>
   window_message page_AB 1 instance_B (from_own_origin login_required_message) =
     [InvalidSession (JStr ''login_required'') 0]"
  by (simp add: construct_A construct_B)
     (simp add: sessionCheckFrame_def demo_frame_def response_params_def add_entry_def
       classify_def param_set_def truthy_str_def postMessage_def opt_val_def
       login_required_message_def relay_def page_AB_def from_own_origin_def
       window_message_def eventListener_def instance_A_def instance_B_def
       standards_instance_def config_A_def config_B_def standards_config_def)

text \<open>
  What the listener does filter: a message that names another \<open>authId\<close>, or that comes
  from another origin, calls no handler of the instance.
\<close>

theorem listener_filters:
  assumes "(truthy (data_authId (data e)) \<and>
            \<not> strict_eq (data_authId (data e)) (opt_val (authId this))) \<or>
           origin e \<noteq> document_origin p"
  shows "window_message p h this e = []"
  using assms by (auto simp add: window_message_def eventListener_def)

theorem listener_filters_witness:
  "window_message page_AB 1 instance_B
     (from_own_origin (sessionCheckFailed ''nonce_mismatch'' (JStr ''A''))) = []"
  using listener_filters [of "from_own_origin (sessionCheckFailed ''nonce_mismatch'' (JStr ''A''))"
      instance_B page_AB 1]
  by (simp add: from_own_origin_def sessionCheckFailed_def instance_B_def opt_val_def)

section \<open>Further properties\<close>

text \<open>
  When the storage has no item \<open>sessionCheckNonce\<close>, the nonce ledger reads as \<open>null\<close>
  and the verifier throws a \<open>TypeError\<close> on a response with a decodable \<open>id_token\<close>: it
  posts nothing.
\<close>

theorem verifier_without_ledger_throws:
  assumes "parent_origin w = window_origin w"
    and "params = response_params (location_hash w) (location_search w)"
    and "param_set params ''id_token''"
    and "getIdTokenClaims b (js_str (params ''id_token'')) = Inr c"
    and "sessionStorage w ''sessionCheckNonce'' = None"
  shows "sessionCheckFrame b w = Inl TypeError"
  using assms
  by (simp add: sessionCheckFrame_def classify_def and_then_def JSON_parse_item_def Let_def)

theorem verifier_without_ledger_throws_witness:
  "sessionCheckFrame demo_builtins
     (demo_frame ''#id_token=h.eyJzdWIiOiJhbGljZSIsIm5vbmNlIjo0Mn0.s&state=Primary'' []
        [''sessionCheckNonce-Primary'' \<mapsto> ''42'']) = Inl TypeError"
proof -
  let ?f = "demo_frame ''#id_token=h.eyJzdWIiOiJhbGljZSIsIm5vbmNlIjo0Mn0.s&state=Primary'' []
        [''sessionCheckNonce-Primary'' \<mapsto> ''42'']"
  show ?thesis
    using verifier_without_ledger_throws [of ?f
        "response_params (location_hash ?f) (location_search ?f)" demo_builtins
        "JObj [(''sub'', JStr ''alice''), (''nonce'', JNum 42)]"]
    by (simp add: demo_frame_def demo_builtins_def response_params_def
        add_entry_def param_set_def truthy_str_def js_str_def getIdTokenClaims_def
        JSON_parse_def)
qed

text \<open>
  The dispatcher of \<open>sessionCheck.js\<close> records the nonce under the key
  \<open>sessionCheckNonce-\<close> followed by the id of the instance; it never writes the items
  \<open>sessionCheckNonce\<close> and \<open>sessionCheckSubject\<close> that the verifier reads.
\<close>

theorem dispatch_leaves_verifier_ledger:
  "storage (fst (sessionCheckRequest nonce p this)) ''sessionCheckNonce'' =
     storage p ''sessionCheckNonce'' \<and>
   storage (fst (sessionCheckRequest nonce p this)) ''sessionCheckSubject'' =
     storage p ''sessionCheckSubject''"
  by (simp add: sessionCheckRequest_def split: option.splits)

text \<open>
  A validation response whose text parses to \<open>null\<close> makes \<open>validationHandler\<close> throw a
  \<open>TypeError\<close>: no handler is called.
\<close>

theorem validation_null_throws:
  assumes "json_parse b text = Inr JNull"
  shows "validationHandler b this text = Inl TypeError"
  using assms by (simp add: validationHandler_def and_then_def)

theorem validation_null_throws_witness:
  "validationHandler demo_builtins trusted_instance ''null'' = Inl TypeError"
  using validation_null_throws [of demo_builtins "''null''" trusted_instance]
  by (simp add: demo_builtins_def)

text \<open>
  The listener calls the first-success handler exactly for a success message that passes
  its filters while the handler is supplied and the request counter is 1.
\<close>

theorem first_success_handler_gate:
  "(InitialSessionSuccess \<in> set (eventListener p this e)) =
     (\<not> (truthy (data_authId (data e)) \<and>
         \<not> strict_eq (data_authId (data e)) (opt_val (authId this))) \<and>
      origin e = document_origin p \<and>
      strict_eq (data_message (data e)) (JStr ''sessionCheckSucceeded'') \<and>
      cfg_initialSessionSuccessHandler (config this) \<and> request_check_count this = 1)"
  by (auto simp add: eventListener_def)

text \<open>
  When the nonce ledger can be read and what it gives for the \<open>state\<close> of a response is
  not a number (no entry, or an inherited property), a response with a decodable
  \<open>id_token\<close>, whose nonce converts to a number without an exception, is relayed as the
  failure \<open>nonce_mismatch\<close>.
\<close>

theorem unrecorded_nonce_is_mismatch:
  assumes "parent_origin w = window_origin w"
    and "params = response_params (location_hash w) (location_search w)"
    and "params ''id_token'' = Some tok" and "tok \<noteq> []"
    and "getIdTokenClaims b tok = Inr (JObj cs)"
    and "JSON_parse_item b (sessionStorage w ''sessionCheckNonce'') = Inr nonceMap"
    and "get_keyed b nonceMap (case params ''state'' of None \<Rightarrow> ''undefined'' | Some s \<Rightarrow> s) =
           Inr v"
    and "\<forall>n. v \<noteq> JNum n"
    and "\<forall>kvs. map_of cs ''nonce'' = Some (JObj kvs) \<longrightarrow> map_of kvs ''toString'' = None"
  shows "sessionCheckFrame b w =
           Inr (Some (\<lparr>data_message = JStr ''sessionCheckFailed'',
                        data_reason = JStr ''nonce_mismatch'', data_claims = JUndefined,
                        data_authId = (case params ''state'' of
                                         None \<Rightarrow> JUndefined | Some s \<Rightarrow> JStr s)\<rparr>,
                      location_origin w))"
proof -
  have "\<not> (\<exists>kvs. own_prop cs ''nonce'' = JObj kvs \<and> map_of kvs ''toString'' \<noteq> None)"
    using assms(9) by (auto simp add: own_prop_def split: option.splits)
  then obtain y where y: "js_Number b (own_prop cs ''nonce'') = Inr y"
    using js_Number_cases [of b "own_prop cs ''nonce''"]
      js_Number_throws [of b "own_prop cs ''nonce''" TypeError] by auto
  then have "\<not> strict_eq v y"
    using not_a_number_differs assms(8) by blast
  then show ?thesis
    using assms(1-7) y
    by (simp add: sessionCheckFrame_def classify_def and_then_def param_set_def truthy_str_def
        js_str_def opt_val_def postMessage_def sessionCheckFailed_def Let_def)
qed

theorem unrecorded_nonce_is_mismatch_witness:
  "sessionCheckFrame demo_builtins
     (demo_frame ''#id_token=h.eyJzdWIiOiJhbGljZSIsIm5vbmNlIjo0Mn0.s&state=Primary'' []
        [''sessionCheckNonce'' \<mapsto> ''{}'']) =
   Inr (Some (\<lparr>data_message = JStr ''sessionCheckFailed'',
                data_reason = JStr ''nonce_mismatch'', data_claims = JUndefined,
                data_authId = JStr ''Primary''\<rparr>,
              ''https://rp.example''))"
proof -
  let ?f = "demo_frame ''#id_token=h.eyJzdWIiOiJhbGljZSIsIm5vbmNlIjo0Mn0.s&state=Primary'' []
        [''sessionCheckNonce'' \<mapsto> ''{}'']"
  show ?thesis
    using unrecorded_nonce_is_mismatch [of ?f
        "response_params (location_hash ?f) (location_search ?f)"
        "''h.eyJzdWIiOiJhbGljZSIsIm5vbmNlIjo0Mn0.s''" demo_builtins
        "[(''sub'', JStr ''alice''), (''nonce'', JNum 42)]" "JObj []" JUndefined]
    by (simp add: demo_frame_def demo_builtins_def response_params_def add_entry_def
        getIdTokenClaims_def JSON_parse_def JSON_parse_item_def object_prototype_names_def)
qed

text \<open>
  The ledgers are read with the prototype chain: for the \<open>state\<close> \<open>constructor\<close>, with
  the nonce 42 recorded and no subject recorded, the subject ledger gives the inherited
  function, and the matching response of \<open>alice\<close> is relayed as \<open>subject_mismatch\<close>.
\<close>

theorem inherited_subject_is_mismatch:
  \<open>sessionCheckFrame demo_builtins
     (demo_frame ''#id_token=h.eyJzdWIiOiJhbGljZSIsIm5vbmNlIjo0Mn0.s&state=constructor'' []
        [''sessionCheckNonce'' \<mapsto> ''{"constructor":42}'', ''sessionCheckSubject'' \<mapsto> ''{}'']) =
   Inr (Some (\<lparr>data_message = JStr ''sessionCheckFailed'',
                data_reason = JStr ''subject_mismatch'',
                data_claims = JUndefined, data_authId = JStr ''constructor''\<rparr>,
              ''https://rp.example''))\<close>
  by (simp add: sessionCheckFrame_def demo_frame_def response_params_def add_entry_def
      classify_def param_set_def truthy_str_def js_str_def getIdTokenClaims_def
      JSON_parse_def JSON_parse_item_def demo_builtins_def and_then_def own_prop_def
      postMessage_def sessionCheckFailed_def opt_val_def object_prototype_names_def Let_def)

end
